theory Spec2Isabelle
  imports Main "HOL-Library.Sublist" "HOL-Library.Multiset"
begin

section \<open>Strings\<close>

text \<open>
  User input is a \<^typ>\<open>string\<close> whose characters are the code units U+0000 to U+00FF.
  On that range JavaScript's \<^verbatim>\<open>toLowerCase\<close> maps A-Z and the capital letters
  U+00C0 to U+00DE (U+00D7, the multiplication sign, apart) to the code unit 32 above and
  leaves every other unit alone; \<^verbatim>\<open>trim\<close> strips the units 9 to 13, 32 and 160 from
  both ends.
\<close>

definition toLowerCaseChar :: "char \<Rightarrow> char" where
  "toLowerCaseChar c =
     (let n = (of_char c :: nat)
      in if (65 \<le> n \<and> n \<le> 90) \<or> (192 \<le> n \<and> n \<le> 222 \<and> n \<noteq> 215)
         then char_of (n + 32) else c)"

definition toLowerCase :: "string \<Rightarrow> string" where
  "toLowerCase s = map toLowerCaseChar s"

definition isWhiteSpace :: "char \<Rightarrow> bool" where
  "isWhiteSpace c =
     (let n = (of_char c :: nat) in (9 \<le> n \<and> n \<le> 13) \<or> n = 32 \<or> n = 160)"

definition trim :: "string \<Rightarrow> string" where
  "trim s = rev (dropWhile isWhiteSpace (rev (dropWhile isWhiteSpace s)))"

text \<open>\<^verbatim>\<open>s.includes(k)\<close>: \<open>k\<close> occurs in \<open>s\<close> at some position.\<close>

fun strIncludes :: "string \<Rightarrow> string \<Rightarrow> bool" where
  "strIncludes [] k = (k = [])"
| "strIncludes (c # cs) k = (prefix k (c # cs) \<or> strIncludes cs k)"

section \<open>Intent detection (ChatBot.js)\<close>

definition cloudWatchKeywords :: "string list" where
  "cloudWatchKeywords =
     [''cloudwatch'', ''configure'', ''agent'', ''install'', ''setup'', ''monitor'',
      ''start'', ''deploy'']"

definition alarmKeywords :: "string list" where
  "alarmKeywords =
     [''alarm'', ''alert'', ''threshold'', ''notification'', ''warning'', ''metric'']"

definition instanceTypeChangeKeywords :: "string list" where
  "instanceTypeChangeKeywords =
     [''change'', ''resize'', ''upgrade'', ''instance type'', ''scale'', ''modify instance'']"

definition volumeConversionKeywords :: "string list" where
  "volumeConversionKeywords =
     [''volume'', ''gp2'', ''gp3'', ''storage'', ''convert'', ''migrate'', ''cost saving'',
      ''optimize storage'']"

definition checkCloudWatchIntent :: "string \<Rightarrow> bool" where
  "checkCloudWatchIntent userInput =
     list_ex (\<lambda>keyword. strIncludes (toLowerCase userInput) keyword) cloudWatchKeywords"

definition checkAlarmIntent :: "string \<Rightarrow> bool" where
  "checkAlarmIntent userInput =
     list_ex (\<lambda>keyword. strIncludes (toLowerCase userInput) keyword) alarmKeywords"

definition checkInstanceTypeChangeIntent :: "string \<Rightarrow> bool" where
  "checkInstanceTypeChangeIntent userInput =
     list_ex (\<lambda>keyword. strIncludes (toLowerCase userInput) keyword) instanceTypeChangeKeywords"

definition checkVolumeConversionIntent :: "string \<Rightarrow> bool" where
  "checkVolumeConversionIntent userInput =
     list_ex (\<lambda>keyword. strIncludes (toLowerCase userInput) keyword) volumeConversionKeywords"

datatype intent =
  VolumeConversion | InstanceTypeChange | CloudWatchConfiguration | AlarmConfiguration
  | GenericChat

text \<open>
  The branch that the if / else-if chain of \<^verbatim>\<open>handleSend\<close> takes on the trimmed
  input, in the order of the source.
\<close>

definition detectIntent :: "string \<Rightarrow> intent" where
  "detectIntent v =
     (if checkVolumeConversionIntent v then VolumeConversion
      else if checkInstanceTypeChangeIntent v then InstanceTypeChange
      else if checkCloudWatchIntent v then CloudWatchConfiguration
      else if checkAlarmIntent v then AlarmConfiguration
      else GenericChat)"

subsection \<open>The classifier as the specification words it\<close>

text \<open>
  A keyword matches an input case-insensitively when some contiguous piece of the input
  equals the keyword once both are lower-cased.
\<close>

definition ciSubstring :: "string \<Rightarrow> string \<Rightarrow> bool" where
  "ciSubstring k s = (\<exists>w. sublist w s \<and> toLowerCase w = toLowerCase k)"

definition intentPriority :: "(intent \<times> string list) list" where
  "intentPriority =
     [(VolumeConversion, volumeConversionKeywords),
      (InstanceTypeChange, instanceTypeChangeKeywords),
      (CloudWatchConfiguration, cloudWatchKeywords),
      (AlarmConfiguration, alarmKeywords)]"

definition matchesIntent :: "string \<Rightarrow> intent \<times> string list \<Rightarrow> bool" where
  "matchesIntent s p = (\<exists>k \<in> set (snd p). ciSubstring k s)"

definition specIntent :: "string \<Rightarrow> intent" where
  "specIntent s =
     (case find (matchesIntent s) intentPriority of
        None \<Rightarrow> GenericChat
      | Some p \<Rightarrow> fst p)"

section \<open>Data model\<close>

text \<open>
  An EC2 instance as the backend reports it; the boolean fields stand for the truthiness of
  the JavaScript values, a missing string field is the empty string.
\<close>

record ec2_instance =
  InstanceId :: string
  InstanceName :: string
  State :: string
  Region :: string
  Platform :: string
  InstanceType :: string
  CloudWatchConfigured :: bool
  AlarmsConfigured :: bool
  ActionNeeded :: bool

record summary =
  totalInstances :: nat
  runningInstances :: nat
  configuredInstances :: nat
  alarmsConfiguredInstances :: nat
  unconfiguredInstances :: nat

record alarm_details =
  successfulAlarms :: nat
  totalAlarms :: nat
  createdAlarms :: "string list"

text \<open>An account group is passed through to the account card and never inspected here.\<close>

datatype account_group = AccountGroup string

text \<open>
  The object \<^verbatim>\<open>data\<close> handed to the mutating API functions: the fields the client reads
  or sets. \<open>None\<close> is an absent (or null) field.
\<close>

record payload =
  instanceId :: "string option"
  accountId :: "string option"
  region :: "string option"
  platform :: "string option"
  volumeIds :: "string list option"
  newVolumeType :: "string option"
  alarmConfig :: "(string \<times> nat) list"

text \<open>JavaScript truthiness of a possibly absent string: absent and empty are falsy.\<close>

definition truthy :: "string option \<Rightarrow> bool" where
  "truthy s = (case s of None \<Rightarrow> False | Some v \<Rightarrow> v \<noteq> [])"

section \<open>Services/api.js\<close>

subsection \<open>Errors\<close>

text \<open>
  The message of a thrown error. \<open>Raw\<close> is the message of an error raised by
  \<^verbatim>\<open>fetch\<close> or \<^verbatim>\<open>response.json()\<close>, \<open>ServerError\<close> the \<^verbatim>\<open>error\<close> field of a response
  body, \<open>HttpStatus\<close> the text \<^verbatim>\<open>HTTP <status>: <statusText>\<close>, \<open>FailedTo w m\<close> the text
  \<^verbatim>\<open>Failed to <w>: <m>\<close>, \<open>NoMessage\<close> the message of \<^verbatim>\<open>new Error(undefined)\<close>, and
  \<open>CannotRead\<close> the message of the TypeError raised by reading a property of
  \<^verbatim>\<open>undefined\<close> or \<^verbatim>\<open>null\<close>.
\<close>

datatype err_msg =
    Raw string
  | ServerError string
  | HttpStatus nat
  | CannotConnect
  | AccountIdRequired
  | MissingRequiredFields
  | AlarmConfigurationFailed
  | FailedToFetchInstanceData
  | FailedTo string err_msg
  | NoMessage
  | CannotRead string

datatype js_error = Error err_msg | TypeError err_msg

fun errMessage :: "js_error \<Rightarrow> err_msg" where
  "errMessage (Error m) = m"
| "errMessage (TypeError m) = m"

subsection \<open>HTTP\<close>

datatype http_method = GET | POST

datatype req_body = NoBody | ConverseBody string string | DataBody payload

record http_request =
  req_method :: http_method
  req_path :: string
  req_body :: req_body

text \<open>
  The fields of a JSON response body that the client reads. The boolean fields stand for
  the truthiness of \<^verbatim>\<open>success\<close> and \<^verbatim>\<open>partialSuccess\<close>.
\<close>

record api_body =
  res_error :: "string option"
  res_message :: "string option"
  res_success :: bool
  res_partialSuccess :: bool
  res_alarmDetails :: "alarm_details option"
  res_accountGroups :: "account_group list option"
  res_instances :: "ec2_instance list option"
  res_summary :: "summary option"

text \<open>
  What \<^verbatim>\<open>fetch\<close> followed by \<^verbatim>\<open>response.json()\<close> gives: a rejection, or a status code
  with a parsed body. The backend is a function of the request: its data is fixed.
\<close>

datatype fetch_result = Rejected js_error | Response nat api_body

type_synonym fetch = "http_request \<Rightarrow> fetch_result"

definition ok :: "nat \<Rightarrow> bool" where
  "ok status = (200 \<le> status \<and> status \<le> 299)"

text \<open>
  The catch block of \<^verbatim>\<open>apiCall\<close>: a TypeError whose message mentions \<^verbatim>\<open>fetch\<close> is
  replaced, every other error is thrown again.
\<close>

fun apiCallCatch :: "js_error \<Rightarrow> js_error" where
  "apiCallCatch (TypeError (Raw m)) =
     (if strIncludes m ''fetch'' then Error CannotConnect else TypeError (Raw m))"
| "apiCallCatch e = e"

text \<open>
  Every API function returns its result, \<open>Inl\<close> a thrown error, paired with the HTTP
  requests it issued. A value returned by \<^verbatim>\<open>apiCall\<close> is always wrapped as
  \<^verbatim>\<open>{status: "success", data}\<close>; \<open>Inr data\<close> stands for that wrapper.
\<close>

definition apiCall :: "fetch \<Rightarrow> http_request \<Rightarrow> (js_error + api_body) \<times> http_request list" where
  "apiCall fetch req =
     (case fetch req of
        Rejected e \<Rightarrow> (Inl (apiCallCatch e), [req])
      | Response status data \<Rightarrow>
          if \<not> ok status
          then (Inl (apiCallCatch (Error (if truthy (res_error data)
                                           then ServerError (the (res_error data))
                                           else HttpStatus status))), [req])
          else (Inr data, [req]))"

fun rethrow :: "string \<Rightarrow> (js_error + 'a) \<times> http_request list \<Rightarrow> (js_error + 'a) \<times> http_request list" where
  "rethrow what (Inl e, reqs) = (Inl (Error (FailedTo what (errMessage e))), reqs)"
| "rethrow what (Inr v, reqs) = (Inr v, reqs)"

definition sendMessage :: "fetch \<Rightarrow> string \<Rightarrow> string \<Rightarrow> (js_error + api_body) \<times> http_request list" where
  "sendMessage fetch sid message =
     apiCall fetch \<lparr>req_method = POST, req_path = ''/api/converse'',
                    req_body = ConverseBody sid message\<rparr>"

definition discoverAccounts :: "fetch \<Rightarrow> (js_error + api_body) \<times> http_request list" where
  "discoverAccounts fetch =
     rethrow ''discover accounts''
       (apiCall fetch \<lparr>req_method = GET, req_path = ''/api/discover-accounts'',
                       req_body = NoBody\<rparr>)"

definition discoverInstances :: "fetch \<Rightarrow> string option \<Rightarrow> (js_error + api_body) \<times> http_request list" where
  "discoverInstances fetch acct =
     rethrow (''discover instances for account '' @ (case acct of None \<Rightarrow> ''null'' | Some a \<Rightarrow> a))
       (if \<not> truthy acct then (Inl (Error AccountIdRequired), [])
        else apiCall fetch \<lparr>req_method = GET,
                             req_path = ''/api/discover-instances/'' @ the acct,
                             req_body = NoBody\<rparr>)"

text \<open>The result object of \<^verbatim>\<open>configureAlarms\<close>.\<close>

record alarm_result =
  success :: bool
  partialSuccess :: bool
  message :: "string option"
  alarmDetails :: "alarm_details option"

definition defaultCreatedAlarms :: "payload \<Rightarrow> string list" where
  "defaultCreatedAlarms data =
     (let i = the (instanceId data)
      in [i @ ''-CPU-Utilization'',
          i @ ''-Memory-Utilization'',
          i @ ''-'' @ (if (case platform data of None \<Rightarrow> False
                           | Some p \<Rightarrow> strIncludes (toLowerCase p) ''windows'')
                       then ''Overall'' else ''Disk'') @ ''-Utilization'',
          i @ ''-StatusCheck-System''])"

definition configureAlarms :: "fetch \<Rightarrow> payload \<Rightarrow> (js_error + alarm_result) \<times> http_request list" where
  "configureAlarms fetch data =
     rethrow ''configure alarms''
       (if \<not> truthy (instanceId data) \<or> \<not> truthy (accountId data) \<or> \<not> truthy (region data)
        then (Inl (Error MissingRequiredFields), [])
        else
          let req = \<lparr>req_method = POST, req_path = ''/api/configure-alarms'',
                     req_body = DataBody data\<rparr>
          in case fetch req of
               Rejected e \<Rightarrow> (Inl e, [req])
             | Response status result \<Rightarrow>
                 if ok status \<and> res_success result
                 then (Inr \<lparr>success = True, partialSuccess = False,
                            message = res_message result,
                            alarmDetails =
                              (case res_alarmDetails result of
                                 Some d \<Rightarrow> Some d
                               | None \<Rightarrow> Some \<lparr>successfulAlarms = 4, totalAlarms = 4,
                                                 createdAlarms = defaultCreatedAlarms data\<rparr>)\<rparr>,
                       [req])
                 else if status = 207 \<and> res_partialSuccess result
                 then (Inr \<lparr>success = False, partialSuccess = True,
                            message = res_message result,
                            alarmDetails = res_alarmDetails result\<rparr>,
                       [req])
                 else (Inl (Error (if truthy (res_error result)
                                   then ServerError (the (res_error result))
                                   else AlarmConfigurationFailed)),
                       [req]))"

definition convertVolumes :: "fetch \<Rightarrow> payload \<Rightarrow> (js_error + api_body) \<times> http_request list" where
  "convertVolumes fetch data =
     rethrow ''convert volumes''
       (if \<not> truthy (instanceId data) \<or> \<not> truthy (accountId data) \<or> \<not> truthy (region data)
        then (Inl (Error MissingRequiredFields), [])
        else apiCall fetch \<lparr>req_method = POST, req_path = ''/api/convert-volumes'',
                             req_body = DataBody data\<rparr>)"

section \<open>The conversation (ChatBot.js)\<close>

datatype sender = User | Bot

datatype msg_type = TextMsg | AccountGroupsMsg | InstancesTableMsg

text \<open>
  The \<^verbatim>\<open>data\<close> field of a message: absent, the account groups, or the object
  \<^verbatim>\<open>{instances, accountId}\<close> of an instances-table message.
\<close>

datatype msg_data = NoData | GroupsData "account_group list" | TableData "ec2_instance list" string

text \<open>
  The text of a message. Each fixed text of the source is a constructor named after it;
  a template carries the values interpolated into it. The clock reading at the end of the
  refresh summary is left out.
\<close>

datatype chat_text =
    Plain string
  | WelcomeText
  | AccountsHeaderText
  | AccountsApologyText
  | SelectedAccountText string
  | ScanningText string
  | FoundInstancesText nat nat nat nat
  | InstancesApologyText
  | VolumeConversionIntroText
  | InstanceTypeChangeIntroText
  | CloudWatchIntroText
  | AlarmIntroText
  | ChatReplyWithSuggestionsText string
  | BackendErrorText
  | RefreshRequestText
  | RefreshedText summary
  | RefreshFailedText err_msg
  | ConfigureAlarmsRequestText string
  | AlarmSuccessText string string string nat "string list"
  | AlarmPartialText nat nat string
  | AlarmFailedText string err_msg

record message =
  msg_from :: sender
  msg_text :: chat_text
  msg_type :: msg_type
  msg_data :: msg_data

datatype conversation_state = Welcome | AccountSelection | InstanceManagement

text \<open>A callback handed to \<^verbatim>\<open>setTimeout\<close>.\<close>

datatype task = AddBotMessage chat_text | RefreshInstances

text \<open>
  The state of the widget: the state variables of \<^verbatim>\<open>ChatBot\<close>, the local state of the
  instance table it renders (\<open>alarmModal\<close> holds the instance the alarm dialog is open
  for, \<open>None\<close> when it is closed), the HTTP requests issued so far and the callbacks
  scheduled with \<^verbatim>\<open>setTimeout\<close> and not yet run, each with its delay in milliseconds.
\<close>

record app =
  sessionId :: string
  messages :: "message list"
  input :: string
  loading :: bool
  conversationState :: conversation_state
  accountGroups :: "account_group list"
  selectedAccount :: "string option"
  instances :: "ec2_instance list"
  alarmModal :: "ec2_instance option"
  alarmLoading :: bool
  refreshing :: bool
  requests :: "http_request list"
  timers :: "(nat \<times> task) list"

definition initialApp :: "string \<Rightarrow> app" where
  "initialApp sid =
     \<lparr>sessionId = sid,
      messages = [\<lparr>msg_from = Bot, msg_text = WelcomeText, msg_type = TextMsg, msg_data = NoData\<rparr>],
      input = [], loading = False, conversationState = Welcome, accountGroups = [],
      selectedAccount = None, instances = [], alarmModal = None, alarmLoading = False,
      refreshing = False, requests = [], timers = []\<rparr>"

definition appendMessage :: "message \<Rightarrow> app \<Rightarrow> app" where
  "appendMessage m st = st\<lparr>messages := messages st @ [m]\<rparr>"

definition textMessage :: "sender \<Rightarrow> chat_text \<Rightarrow> message" where
  "textMessage who txt = \<lparr>msg_from = who, msg_text = txt, msg_type = TextMsg, msg_data = NoData\<rparr>"

definition addMessage :: "chat_text \<Rightarrow> sender \<Rightarrow> app \<Rightarrow> app" where
  "addMessage txt who st = appendMessage (textMessage who txt) st"

definition issued :: "http_request list \<Rightarrow> app \<Rightarrow> app" where
  "issued reqs st = st\<lparr>requests := requests st @ reqs\<rparr>"

definition setTimeout :: "task \<Rightarrow> nat \<Rightarrow> app \<Rightarrow> app" where
  "setTimeout cb delay st = st\<lparr>timers := timers st @ [(delay, cb)]\<rparr>"

text \<open>
  \<^verbatim>\<open>ChatBot.handleRefreshInstances\<close>. The result is the value the promise resolves to
  (\<open>None\<close> for \<^verbatim>\<open>undefined\<close>) or the error it rejects with.
\<close>

definition refreshTableMessage :: "string option \<Rightarrow> ec2_instance list \<Rightarrow> message \<Rightarrow> message" where
  "refreshTableMessage acct is msg =
     (case msg_data msg of
        TableData old a \<Rightarrow>
          if msg_type msg = InstancesTableMsg \<and> Some a = acct
          then msg\<lparr>msg_data := TableData is a\<rparr> else msg
      | _ \<Rightarrow> msg)"

definition ChatBot_handleRefreshInstances :: "fetch \<Rightarrow> app \<Rightarrow> (js_error + ec2_instance list option) \<times> app" where
  "ChatBot_handleRefreshInstances fetch st =
     (if \<not> truthy (selectedAccount st) then (Inr None, st)
      else
        let (result, reqs) = discoverInstances fetch (selectedAccount st);
            st1 = issued reqs st
        in case result of
             Inl e \<Rightarrow> (Inl e, st1)
           | Inr data \<Rightarrow>
               (case res_instances data of
                  None \<Rightarrow> (Inl (Error FailedToFetchInstanceData), st1)
                | Some is \<Rightarrow>
                    (Inr (Some is),
                     st1\<lparr>instances := is,
                         messages := map (refreshTableMessage (selectedAccount st) is)
                                         (messages st1)\<rparr>)))"

definition fetchAccountGroups :: "fetch \<Rightarrow> app \<Rightarrow> app" where
  "fetchAccountGroups fetch st =
     (let (result, reqs) = discoverAccounts fetch;
          st1 = issued reqs st
      in case result of
           Inr data \<Rightarrow>
             (let groups = (case res_accountGroups data of None \<Rightarrow> [] | Some g \<Rightarrow> g)
              in (appendMessage \<lparr>msg_from = Bot, msg_text = AccountsHeaderText,
                                  msg_type = AccountGroupsMsg, msg_data = GroupsData groups\<rparr>
                    (st1\<lparr>accountGroups := groups\<rparr>))
                 \<lparr>conversationState := AccountSelection\<rparr>)
         | Inl e \<Rightarrow> addMessage AccountsApologyText Bot st1)"

definition isRunning :: "ec2_instance \<Rightarrow> bool" where
  "isRunning i = (State i = ''running'')"

text \<open>
  \<^verbatim>\<open>handleAccountSelect\<close>. When the response has no \<^verbatim>\<open>instances\<close> field, building the
  message text fails on \<^verbatim>\<open>result.data.instances.length\<close> after the instance list has been
  set to the empty list, and the catch block posts the apology.
\<close>

definition handleAccountSelect :: "fetch \<Rightarrow> string \<Rightarrow> app \<Rightarrow> app" where
  "handleAccountSelect fetch acct st =
     (let st1 = st\<lparr>selectedAccount := Some acct\<rparr>;
          st2 = addMessage (SelectedAccountText acct) User st1;
          st3 = addMessage (ScanningText acct) Bot st2;
          st4 = st3\<lparr>loading := True\<rparr>;
          (result, reqs) = discoverInstances fetch (Some acct);
          st5 = issued reqs st4
      in (case result of
            Inr data \<Rightarrow>
              (let instancesWithAlarms = (case res_instances data of None \<Rightarrow> [] | Some is \<Rightarrow> is);
                   st6 = st5\<lparr>instances := instancesWithAlarms\<rparr>;
                   unconfiguredCount =
                     length (filter (\<lambda>i. ActionNeeded i \<and> isRunning i) instancesWithAlarms);
                   configuredCount =
                     length (filter (\<lambda>i. CloudWatchConfigured i \<and> isRunning i) instancesWithAlarms);
                   alarmsConfiguredCount =
                     length (filter (\<lambda>i. AlarmsConfigured i \<and> isRunning i) instancesWithAlarms)
               in case res_instances data of
                    None \<Rightarrow> addMessage InstancesApologyText Bot st6
                  | Some is \<Rightarrow>
                      (appendMessage
                         \<lparr>msg_from = Bot,
                          msg_text = FoundInstancesText (length is) unconfiguredCount
                                       configuredCount alarmsConfiguredCount,
                          msg_type = InstancesTableMsg,
                          msg_data = TableData instancesWithAlarms acct\<rparr> st6)
                      \<lparr>conversationState := InstanceManagement\<rparr>)
          | Inl e \<Rightarrow> addMessage InstancesApologyText Bot st5)
         \<lparr>loading := False\<rparr>)"

text \<open>
  \<^verbatim>\<open>handleSend\<close>. The object \<^verbatim>\<open>sendMessage\<close> resolves to has no \<^verbatim>\<open>intent\<close> field
  (it is \<^verbatim>\<open>{status, data}\<close> or \<^verbatim>\<open>{status, message}\<close>), so of the branches on
  \<^verbatim>\<open>result.intent\<close> only the last one, which adds the suggestions, is ever taken.
\<close>

definition regularChat :: "fetch \<Rightarrow> string \<Rightarrow> app \<Rightarrow> app" where
  "regularChat fetch v st =
     (let (result, reqs) = sendMessage fetch (sessionId st) v;
          st1 = issued reqs st
      in case result of
           Inr data \<Rightarrow>
             addMessage
               (ChatReplyWithSuggestionsText
                  (if truthy (res_message data) then the (res_message data)
                   else ''Sorry, I didn't understand that.''))
               Bot st1
         | Inl e \<Rightarrow> addMessage BackendErrorText Bot st1)"

definition handleSend :: "fetch \<Rightarrow> app \<Rightarrow> app" where
  "handleSend fetch st =
     (let v = trim (input st)
      in if v = [] then st
         else
           let st1 = addMessage (Plain v) User st;
               st2 = st1\<lparr>input := [], loading := True\<rparr>
           in (case detectIntent v of
                 VolumeConversion \<Rightarrow>
                   fetchAccountGroups fetch (addMessage VolumeConversionIntroText Bot st2)
               | InstanceTypeChange \<Rightarrow>
                   fetchAccountGroups fetch (addMessage InstanceTypeChangeIntroText Bot st2)
               | CloudWatchConfiguration \<Rightarrow>
                   fetchAccountGroups fetch (addMessage CloudWatchIntroText Bot st2)
               | AlarmConfiguration \<Rightarrow>
                   fetchAccountGroups fetch (addMessage AlarmIntroText Bot st2)
               | GenericChat \<Rightarrow> regularChat fetch v st2)
              \<lparr>loading := False\<rparr>)"

section \<open>The instance table (InstanceDetailsTable.js)\<close>

text \<open>
  The table is rendered by \<^verbatim>\<open>ChatBot\<close> with \<^verbatim>\<open>instances\<close> and \<^verbatim>\<open>setInstances\<close> bound
  to the conversation's instance list, \<^verbatim>\<open>onAddMessage\<close> bound to \<^verbatim>\<open>addMessage\<close> and
  \<^verbatim>\<open>accountId\<close> bound to the account of the message it belongs to; the handlers below
  take that account as \<open>acct\<close>.
\<close>

definition Table_handleRefreshInstances :: "fetch \<Rightarrow> string \<Rightarrow> app \<Rightarrow> app" where
  "Table_handleRefreshInstances fetch acct st =
     (if acct = [] then st
      else
        let st1 = st\<lparr>refreshing := True\<rparr>;
            st2 = addMessage RefreshRequestText User st1;
            (response, reqs) = discoverInstances fetch (Some acct);
            st3 = issued reqs st2
        in (case response of
              Inr data \<Rightarrow>
                (case res_instances data of
                   Some is \<Rightarrow>
                     (let st4 = st3\<lparr>instances := is\<rparr>
                      in case res_summary data of
                           Some sm \<Rightarrow> setTimeout (AddBotMessage (RefreshedText sm)) 500 st4
                         | None \<Rightarrow>
                             setTimeout
                               (AddBotMessage (RefreshFailedText (CannotRead ''totalInstances'')))
                               500 st4)
                 | None \<Rightarrow>
                     setTimeout (AddBotMessage (RefreshFailedText FailedToFetchInstanceData))
                       500 st3)
            | Inl e \<Rightarrow> setTimeout (AddBotMessage (RefreshFailedText (errMessage e))) 500 st3)
           \<lparr>refreshing := False\<rparr>)"



subsection \<open>Status and sort order\<close>

datatype instance_status = not_configured | agent_configured | alarm_configured

definition getInstanceStatus :: "ec2_instance \<Rightarrow> instance_status" where
  "getInstanceStatus i =
     (let hasAgent = CloudWatchConfigured i; hasAlarms = AlarmsConfigured i
      in if hasAgent \<and> hasAlarms then alarm_configured
         else if hasAgent then agent_configured
         else not_configured)"

fun priority :: "instance_status \<Rightarrow> int" where
  "priority not_configured = 0"
| "priority agent_configured = 1"
| "priority alarm_configured = 2"

text \<open>The comparison function handed to \<^verbatim>\<open>sort\<close>.\<close>

definition compareInstances :: "ec2_instance \<Rightarrow> ec2_instance \<Rightarrow> int" where
  "compareInstances a b =
     (let statusA = getInstanceStatus a; statusB = getInstanceStatus b
      in if priority statusA \<noteq> priority statusB then priority statusA - priority statusB
         else if State a \<noteq> State b then (if State a = ''running'' then - 1 else 1)
         else 0)"

text \<open>
  \<^verbatim>\<open>Array.prototype.sort\<close> belongs to the JavaScript engine, so the sorted list takes the
  engine's sort as a parameter. Two stable insertion sorts stand for engines. Both insert
  the elements one by one, in order, into the sorted prefix. \<open>sortScanningLeft\<close> walks
  from the end of the prefix towards its start, past every element that the comparison
  puts after the new one (a positive answer to \<open>cmp e x\<close>). \<open>sortScanningRight\<close> walks
  from the start of the prefix and stops at the first element that the comparison puts
  after the new one (a negative answer to \<open>cmp x e\<close>). On a comparison function that is
  a consistent ordering the two agree.
\<close>

type_synonym 'a sort_fn = "('a \<Rightarrow> 'a \<Rightarrow> int) \<Rightarrow> 'a list \<Rightarrow> 'a list"

fun insertScanningLeft :: "('a \<Rightarrow> 'a \<Rightarrow> int) \<Rightarrow> 'a \<Rightarrow> 'a list \<Rightarrow> 'a list" where
  "insertScanningLeft cmp x [] = [x]"
| "insertScanningLeft cmp x (e # es) =
     (if cmp e x > 0 then e # insertScanningLeft cmp x es else x # e # es)"

text \<open>The prefix is kept with its last element first while \<open>sortScanningLeft\<close> runs.\<close>

definition sortScanningLeft :: "'a sort_fn" where
  "sortScanningLeft cmp xs = rev (foldl (\<lambda>pre x. insertScanningLeft cmp x pre) [] xs)"

fun insertScanningRight :: "('a \<Rightarrow> 'a \<Rightarrow> int) \<Rightarrow> 'a \<Rightarrow> 'a list \<Rightarrow> 'a list" where
  "insertScanningRight cmp x [] = [x]"
| "insertScanningRight cmp x (e # es) =
     (if cmp x e < 0 then x # e # es else e # insertScanningRight cmp x es)"

definition sortScanningRight :: "'a sort_fn" where
  "sortScanningRight cmp xs = foldl (\<lambda>pre x. insertScanningRight cmp x pre) [] xs"

definition sortedInstances :: "ec2_instance sort_fn \<Rightarrow> ec2_instance list \<Rightarrow> ec2_instance list" where
  "sortedInstances sortFn insts = sortFn compareInstances insts"

text \<open>
  The position of an instance in the intended order: the status tier first, running
  before not running within a tier.
\<close>

definition rank :: "ec2_instance \<Rightarrow> int" where
  "rank i = 2 * priority (getInstanceStatus i) + (if State i = ''running'' then 0 else 1)"

subsection \<open>Alarm configuration\<close>

definition displayName :: "ec2_instance \<Rightarrow> string" where
  "displayName i = (if InstanceName i \<noteq> [] then InstanceName i else InstanceId i)"

definition markAlarmsConfigured :: "ec2_instance \<Rightarrow> ec2_instance list \<Rightarrow> ec2_instance list" where
  "markAlarmsConfigured inst prevInstances =
     map (\<lambda>i. if InstanceId i = InstanceId inst then i\<lparr>AlarmsConfigured := True\<rparr> else i)
       prevInstances"

definition alarmSuccessText :: "ec2_instance \<Rightarrow> alarm_result \<Rightarrow> chat_text" where
  "alarmSuccessText inst response =
     (let alarmCount =
            (case alarmDetails response of
               None \<Rightarrow> 4
             | Some d \<Rightarrow>
                 if successfulAlarms d \<noteq> 0 then successfulAlarms d
                 else if totalAlarms d \<noteq> 0 then totalAlarms d else 4);
          created = (case alarmDetails response of None \<Rightarrow> [] | Some d \<Rightarrow> createdAlarms d)
      in AlarmSuccessText (InstanceId inst) (InstanceName inst)
           (if strIncludes (Platform inst) ''windows'' then ''Windows'' else ''Linux'')
           alarmCount created)"

text \<open>The object \<^verbatim>\<open>handleConfirmAlarmConfig\<close> passes to \<^verbatim>\<open>configureAlarms\<close>.\<close>

definition alarmRequestData :: "ec2_instance \<Rightarrow> string \<Rightarrow> (string \<times> nat) list \<Rightarrow> payload" where
  "alarmRequestData inst acct config =
     \<lparr>instanceId = Some (InstanceId inst), accountId = Some acct,
      region = Some (Region inst), platform = Some (Platform inst),
      volumeIds = None, newVolumeType = None, alarmConfig = config\<rparr>"

definition alarmRequest :: "ec2_instance \<Rightarrow> string \<Rightarrow> (string \<times> nat) list \<Rightarrow> http_request" where
  "alarmRequest inst acct config =
     \<lparr>req_method = POST, req_path = ''/api/configure-alarms'',
      req_body = DataBody (alarmRequestData inst acct config)\<rparr>"

text \<open>
  \<^verbatim>\<open>handleConfirmAlarmConfig\<close>. The first component is the error the handler's promise
  rejects with, if any: with no instance in \<open>alarmModal\<close> the catch block itself fails on
  \<^verbatim>\<open>instance.InstanceName\<close>.
\<close>

definition handleConfirmAlarmConfig ::
    "fetch \<Rightarrow> string \<Rightarrow> (string \<times> nat) list \<Rightarrow> app \<Rightarrow> js_error option \<times> app" where
  "handleConfirmAlarmConfig fetch acct config st =
     (let st1 = st\<lparr>alarmModal := None\<rparr>;
          st2 = st1\<lparr>alarmLoading := True\<rparr>
      in case alarmModal st of
           None \<Rightarrow> (Some (TypeError (CannotRead ''InstanceName'')), st2\<lparr>alarmLoading := False\<rparr>)
         | Some inst \<Rightarrow>
             let st3 = addMessage (ConfigureAlarmsRequestText (InstanceId inst)) User st2;
                 (response, reqs) =
                   configureAlarms fetch (alarmRequestData inst acct config);
                 st4 = issued reqs st3;
                 failed = (\<lambda>m. setTimeout (AddBotMessage (AlarmFailedText (displayName inst) m))
                                  500 st4)
             in (None,
                 (case response of
                    Inl e \<Rightarrow> failed (errMessage e)
                  | Inr r \<Rightarrow>
                      if success r then
                        setTimeout RefreshInstances 2000
                          (setTimeout (AddBotMessage (alarmSuccessText inst r)) 500
                             (st4\<lparr>instances := markAlarmsConfigured inst (instances st4)\<rparr>))
                      else if partialSuccess r then
                        (case alarmDetails r of
                           None \<Rightarrow> failed (CannotRead ''successfulAlarms'')
                         | Some d \<Rightarrow>
                             setTimeout
                               (AddBotMessage
                                  (AlarmPartialText (successfulAlarms d) (totalAlarms d)
                                     (displayName inst)))
                               500 st4)
                      else failed NoMessage)
                 \<lparr>alarmLoading := False\<rparr>))"

section \<open>The volume conversion dialog (VolumeConversionModal.js)\<close>

record volume =
  VolumeId :: string
  VolumeType :: string
  Size :: int

text \<open>An entry of \<^verbatim>\<open>volumeTypeOptions\<close>; the display texts are left out.\<close>

record volume_type_option =
  opt_value :: string
  supportsCustom :: bool
  recommended :: bool

definition volumeTypeOptions :: "volume_type_option list" where
  "volumeTypeOptions = [\<lparr>opt_value = ''gp2'', supportsCustom = False, recommended = False\<rparr>]"

datatype modal_step = Discovery | Selection | Configuration | Confirmation | NoVolumes | ErrorStep

text \<open>
  The state of the dialog. \<open>customIops\<close> and \<open>customThroughput\<close> are text fields: \<open>None\<close>
  is the empty text, \<open>Some n\<close> the decimal text of \<open>n\<close>.
\<close>

record volume_modal =
  volumes :: "volume list"
  selectedVolumes :: "string list"
  targetVolumeType :: string
  customIops :: "int option"
  customThroughput :: "int option"
  modalError :: string
  step :: modal_step

record optimal_settings =
  iops :: int
  throughput :: "int option"

text \<open>The gp3 branch of \<^verbatim>\<open>calculateOptimalSettings\<close>.\<close>

definition gp3Settings :: "int \<Rightarrow> optimal_settings" where
  "gp3Settings volumeSize =
     (let optimalIops = max 3000 (min (volumeSize * 3) 16000);
          optimalThroughput = max 125 (min (optimalIops div 4) 1000)
      in \<lparr>iops = optimalIops, throughput = Some optimalThroughput\<rparr>)"

definition calculateOptimalSettings :: "int \<Rightarrow> string \<Rightarrow> optimal_settings option" where
  "calculateOptimalSettings volumeSize targetType =
     (case find (\<lambda>opt. opt_value opt = targetType) volumeTypeOptions of
        None \<Rightarrow> None
      | Some targetOption \<Rightarrow>
          if \<not> supportsCustom targetOption then None
          else if targetType = ''gp3'' then Some (gp3Settings volumeSize)
          else if targetType = ''io1'' \<or> targetType = ''io2'' then
            (let multiplier = (if targetType = ''io2'' then 500 else 100);
                 optimalIops = max 100 (min (volumeSize * multiplier) 64000)
             in Some \<lparr>iops = optimalIops, throughput = None\<rparr>)
          else None)"

text \<open>\<^verbatim>\<open>Math.round\<close> of a quotient of integers: the nearest integer, a half rounded up.\<close>

definition roundDiv :: "int \<Rightarrow> int \<Rightarrow> int" where
  "roundDiv a b = (2 * a + b) div (2 * b)"

definition proceedToConfiguration :: "volume_modal \<Rightarrow> volume_modal" where
  "proceedToConfiguration m =
     (if selectedVolumes m = []
      then m\<lparr>modalError := ''Please select at least one volume to convert''\<rparr>
      else
        let selectedVolumeObjects =
              filter (\<lambda>v. VolumeId v \<in> set (selectedVolumes m)) (volumes m);
            m1 = (if selectedVolumeObjects \<noteq> [] then
                    (let avgSize = roundDiv (sum_list (map Size selectedVolumeObjects))
                                     (int (length selectedVolumeObjects))
                     in case calculateOptimalSettings avgSize (targetVolumeType m) of
                          None \<Rightarrow> m
                        | Some optimal \<Rightarrow>
                            (let m2 = (if iops optimal \<noteq> 0
                                       then m\<lparr>customIops := Some (iops optimal)\<rparr> else m)
                             in case throughput optimal of
                                  None \<Rightarrow> m2
                                | Some t \<Rightarrow>
                                    if t \<noteq> 0 then m2\<lparr>customThroughput := Some t\<rparr> else m2))
                  else m)
        in m1\<lparr>modalError := [], step := Configuration\<rparr>)"

text \<open>The dialog as the effect that resets it on opening leaves it, before discovery.\<close>

definition openedModal :: volume_modal where
  "openedModal =
     \<lparr>volumes = [], selectedVolumes = [], targetVolumeType = ''gp3'', customIops = None,
      customThroughput = None, modalError = [], step = Discovery\<rparr>"

section \<open>Example data\<close>

definition exampleInstance :: "string \<Rightarrow> string \<Rightarrow> bool \<Rightarrow> bool \<Rightarrow> ec2_instance" where
  "exampleInstance i s agent alarms =
     \<lparr>InstanceId = i, InstanceName = [], State = s, Region = ''us-east-1'',
      Platform = ''linux'', InstanceType = ''t3.micro'', CloudWatchConfigured = agent,
      AlarmsConfigured = alarms, ActionNeeded = (\<not> agent)\<rparr>"

definition emptyBody :: api_body where
  "emptyBody =
     \<lparr>res_error = None, res_message = None, res_success = False, res_partialSuccess = False,
      res_alarmDetails = None, res_accountGroups = None, res_instances = None,
      res_summary = None\<rparr>"

text \<open>A backend that is unreachable, and one that answers every request with a body.\<close>

definition unreachable :: fetch where
  "unreachable req = Rejected (TypeError (Raw ''Failed to fetch''))"

definition answering :: "nat \<Rightarrow> api_body \<Rightarrow> fetch" where
  "answering status body req = Response status body"

definition instancesBody :: "ec2_instance list \<Rightarrow> api_body" where
  "instancesBody is =
     emptyBody\<lparr>res_success := True, res_instances := Some is,
       res_summary := Some \<lparr>totalInstances = length is,
                             runningInstances = length (filter isRunning is),
                             configuredInstances = length (filter CloudWatchConfigured is),
                             alarmsConfiguredInstances = length (filter AlarmsConfigured is),
                             unconfiguredInstances = length (filter ActionNeeded is)\<rparr>\<rparr>"

text \<open>The conversation after account 111122223333 was selected and one instance found.\<close>

definition managingApp :: app where
  "managingApp =
     handleAccountSelect
       (answering 200 (instancesBody [exampleInstance ''i-1'' ''running'' True False]))
       ''111122223333'' (initialApp ''session'')"

definition examplePayload :: payload where
  "examplePayload =
     \<lparr>instanceId = Some ''i-1'', accountId = Some ''111122223333'',
      region = Some ''us-east-1'', platform = None, volumeIds = None,
      newVolumeType = Some ''gp3'', alarmConfig = []\<rparr>"

text \<open>Two instances listed, the alarm dialog open for the first.\<close>

definition alarmDialogApp :: app where
  "alarmDialogApp =
     managingApp
       \<lparr>instances := [exampleInstance ''i-1'' ''running'' True False,
                      exampleInstance ''i-2'' ''running'' True False],
        alarmModal := Some (exampleInstance ''i-1'' ''running'' True False)\<rparr>"


text \<open>A message that a refresh of the instance list posts.\<close>

definition refreshRelated :: "message \<Rightarrow> bool" where
  "refreshRelated m =
     (case msg_text m of
        RefreshRequestText \<Rightarrow> True
      | RefreshedText sm \<Rightarrow> True
      | RefreshFailedText e \<Rightarrow> True
      | _ \<Rightarrow> False)"

text \<open>The backend once a second, stopped instance has appeared in the account.\<close>

definition changedBackend :: fetch where
  "changedBackend =
     answering 200 (instancesBody [exampleInstance ''i-1'' ''running'' True False,
                                   exampleInstance ''i-2'' ''stopped'' False False])"

text \<open>The payloads of the instances-table messages of the transcript, in order.\<close>

definition tablePayloads :: "app \<Rightarrow> msg_data list" where
  "tablePayloads st = map msg_data (filter (\<lambda>m. msg_type m = InstancesTableMsg) (messages st))"

text \<open>The dialog with one 100 GB volume found and selected, the target type still gp3.\<close>

definition selectionModal :: volume_modal where
  "selectionModal =
     openedModal\<lparr>volumes := [\<lparr>VolumeId = ''vol-1'', VolumeType = ''gp2'', Size = 100\<rparr>],
                  selectedVolumes := [''vol-1''], step := Selection\<rparr>"

text \<open>The welcome state with the example request typed in, white space around it.\<close>

definition cloudwatchAlarmApp :: app where
  "cloudwatchAlarmApp = (initialApp ''s'')\<lparr>input := '' configure cloudwatch alarm ''\<rparr>"


section \<open>Properties\<close>

subsection \<open>Intent detection\<close>

lemma includes_sublist: "strIncludes s k \<longleftrightarrow> sublist k s"
  by (induction s) (simp_all add: sublist_Cons_right)

lemma keywords_lower:
  "k \<in> set (volumeConversionKeywords @ instanceTypeChangeKeywords @ cloudWatchKeywords @ alarmKeywords)
   \<Longrightarrow> toLowerCase k = k"
  by (auto simp add: volumeConversionKeywords_def instanceTypeChangeKeywords_def cloudWatchKeywords_def alarmKeywords_def toLowerCase_def toLowerCaseChar_def)

lemma sublist_map_iff: "sublist k (map f s) \<longleftrightarrow> (\<exists>w. sublist w s \<and> map f w = k)"
  by (metis sublist_map_rightE map_mono_sublist)

lemma includes_ciSubstring:
  "toLowerCase k = k \<Longrightarrow> strIncludes (toLowerCase s) k \<longleftrightarrow> ciSubstring k s"
  by (simp add: includes_sublist ciSubstring_def toLowerCase_def sublist_map_iff)

lemma some_keyword_matches:
  assumes "set kws \<subseteq> set (volumeConversionKeywords @ instanceTypeChangeKeywords @ cloudWatchKeywords @ alarmKeywords)"
  shows "list_ex (\<lambda>keyword. strIncludes (toLowerCase s) keyword) kws \<longleftrightarrow> matchesIntent s (i, kws)"
proof -
  have "\<And>k. k \<in> set kws \<Longrightarrow> strIncludes (toLowerCase s) k \<longleftrightarrow> ciSubstring k s"
    using assms keywords_lower includes_ciSubstring by blast
  then show ?thesis
    by (auto simp add: list_ex_iff matchesIntent_def)
qed

lemma checkVolumeConversionIntent_matches:
  "checkVolumeConversionIntent s \<longleftrightarrow> matchesIntent s (VolumeConversion, volumeConversionKeywords)"
  unfolding checkVolumeConversionIntent_def by (rule some_keyword_matches) auto

lemma checkInstanceTypeChangeIntent_matches:
  "checkInstanceTypeChangeIntent s \<longleftrightarrow> matchesIntent s (InstanceTypeChange, instanceTypeChangeKeywords)"
  unfolding checkInstanceTypeChangeIntent_def by (rule some_keyword_matches) auto

lemma checkCloudWatchIntent_matches:
  "checkCloudWatchIntent s \<longleftrightarrow> matchesIntent s (CloudWatchConfiguration, cloudWatchKeywords)"
  unfolding checkCloudWatchIntent_def by (rule some_keyword_matches) auto

lemma checkAlarmIntent_matches:
  "checkAlarmIntent s \<longleftrightarrow> matchesIntent s (AlarmConfiguration, alarmKeywords)"
  unfolding checkAlarmIntent_def by (rule some_keyword_matches) auto

text \<open>
  Trimming does not change the branch taken: no keyword starts or ends with white space,
  and lower-casing neither makes nor removes white space.
\<close>

lemma isWhiteSpace_toLowerCaseChar: "isWhiteSpace (toLowerCaseChar c) = isWhiteSpace c"
  by (auto simp add: isWhiteSpace_def toLowerCaseChar_def Let_def)

lemma toLowerCase_trim: "toLowerCase (trim s) = trim (toLowerCase s)"
proof -
  have comp: "isWhiteSpace \<circ> toLowerCaseChar = isWhiteSpace"
    by (rule ext) (simp add: isWhiteSpace_toLowerCaseChar)
  show ?thesis
    by (simp add: toLowerCase_def trim_def rev_map dropWhile_map comp)
qed

lemma sublist_dropWhile:
  assumes "k \<noteq> []" and "\<not> P (hd k)"
  shows "sublist k (dropWhile P s) \<longleftrightarrow> sublist k s"
proof (induction s)
  case Nil
  show ?case by simp
next
  case (Cons c cs)
  show ?case
  proof (cases "P c")
    case True
    have "\<not> prefix k (c # cs)"
    proof
      assume "prefix k (c # cs)"
      with assms(1) have "hd k = c" by (cases k) simp_all
      with True assms(2) show False by simp
    qed
    with True Cons show ?thesis by (simp add: sublist_Cons_right)
  next
    case False
    then show ?thesis by simp
  qed
qed

lemma sublist_trim:
  assumes "k \<noteq> []" and "\<not> isWhiteSpace (hd k)" and "\<not> isWhiteSpace (last k)"
  shows "sublist k (trim s) \<longleftrightarrow> sublist k s"
proof -
  have r: "rev k \<noteq> []" "\<not> isWhiteSpace (hd (rev k))"
    using assms by (simp_all add: hd_rev)
  have "sublist k (trim s) \<longleftrightarrow> sublist (rev k) (dropWhile isWhiteSpace (rev (dropWhile isWhiteSpace s)))"
    unfolding trim_def by (metis sublist_rev rev_rev_ident)
  also have "\<dots> \<longleftrightarrow> sublist (rev k) (rev (dropWhile isWhiteSpace s))"
    using r by (rule sublist_dropWhile)
  also have "\<dots> \<longleftrightarrow> sublist k (dropWhile isWhiteSpace s)"
    by (rule sublist_rev)
  also have "\<dots> \<longleftrightarrow> sublist k s"
    using assms(1,2) by (rule sublist_dropWhile)
  finally show ?thesis .
qed

lemma keywords_edges:
  "k \<in> set (volumeConversionKeywords @ instanceTypeChangeKeywords @ cloudWatchKeywords @ alarmKeywords)
   \<Longrightarrow> k \<noteq> [] \<and> \<not> isWhiteSpace (hd k) \<and> \<not> isWhiteSpace (last k)"
  by (auto simp add: volumeConversionKeywords_def instanceTypeChangeKeywords_def
        cloudWatchKeywords_def alarmKeywords_def isWhiteSpace_def)

lemma some_keyword_trim:
  assumes "set kws \<subseteq> set (volumeConversionKeywords @ instanceTypeChangeKeywords @ cloudWatchKeywords @ alarmKeywords)"
  shows "list_ex (\<lambda>keyword. strIncludes (toLowerCase (trim s)) keyword) kws \<longleftrightarrow>
         list_ex (\<lambda>keyword. strIncludes (toLowerCase s) keyword) kws"
proof -
  have "\<And>k. k \<in> set kws \<Longrightarrow>
          strIncludes (toLowerCase (trim s)) k \<longleftrightarrow> strIncludes (toLowerCase s) k"
    using assms keywords_edges sublist_trim
    by (simp add: includes_sublist toLowerCase_trim subset_iff)
  then show ?thesis by (auto simp add: list_ex_iff)
qed

lemma detectIntent_trim: "detectIntent (trim s) = detectIntent s"
proof -
  have "checkVolumeConversionIntent (trim s) = checkVolumeConversionIntent s"
    unfolding checkVolumeConversionIntent_def by (rule some_keyword_trim) auto
  moreover have "checkInstanceTypeChangeIntent (trim s) = checkInstanceTypeChangeIntent s"
    unfolding checkInstanceTypeChangeIntent_def by (rule some_keyword_trim) auto
  moreover have "checkCloudWatchIntent (trim s) = checkCloudWatchIntent s"
    unfolding checkCloudWatchIntent_def by (rule some_keyword_trim) auto
  moreover have "checkAlarmIntent (trim s) = checkAlarmIntent s"
    unfolding checkAlarmIntent_def by (rule some_keyword_trim) auto
  ultimately show ?thesis by (simp add: detectIntent_def)
qed

lemma detectIntent_specIntent: "detectIntent s = specIntent s"
  by (simp add: detectIntent_def specIntent_def intentPriority_def
      checkVolumeConversionIntent_matches checkInstanceTypeChangeIntent_matches
      checkCloudWatchIntent_matches checkAlarmIntent_matches)

lemma handleSend_specIntent:
  assumes "trim (input st) \<noteq> []"
  shows "handleSend fetch st =
           (let v = trim (input st);
                st2 = (addMessage (Plain v) User st)\<lparr>input := [], loading := True\<rparr>
            in (case specIntent (input st) of
                  VolumeConversion \<Rightarrow>
                    fetchAccountGroups fetch (addMessage VolumeConversionIntroText Bot st2)
                | InstanceTypeChange \<Rightarrow>
                    fetchAccountGroups fetch (addMessage InstanceTypeChangeIntroText Bot st2)
                | CloudWatchConfiguration \<Rightarrow>
                    fetchAccountGroups fetch (addMessage CloudWatchIntroText Bot st2)
                | AlarmConfiguration \<Rightarrow>
                    fetchAccountGroups fetch (addMessage AlarmIntroText Bot st2)
                | GenericChat \<Rightarrow> regularChat fetch v st2)
               \<lparr>loading := False\<rparr>)"
proof -
  have "detectIntent (trim (input st)) = specIntent (input st)"
    using detectIntent_trim [of "input st"] detectIntent_specIntent [of "input st"] by simp
  with assms show ?thesis
    by (simp add: handleSend_def Let_def)
qed

text \<open>
  C1. On a non-empty trimmed input \<^verbatim>\<open>handleSend\<close> posts the user's text and then takes
  the branch of the first intent, in the order volume conversion, instance-type change,
  CloudWatch configuration, alarm configuration, one of whose keywords occurs in the input
  case-insensitively, and the generic chat branch when no keyword occurs. The routing
  chain names that intent on the input as typed and on the trimmed input.
  "configure cloudwatch alarm" is routed to CloudWatch configuration.
\<close>

theorem handleSend_routes_first_match:
  "(trim (input st) \<noteq> [] \<longrightarrow>
      handleSend fetch st =
        (let v = trim (input st);
             st2 = (addMessage (Plain v) User st)\<lparr>input := [], loading := True\<rparr>
         in (case specIntent (input st) of
               VolumeConversion \<Rightarrow>
                 fetchAccountGroups fetch (addMessage VolumeConversionIntroText Bot st2)
             | InstanceTypeChange \<Rightarrow>
                 fetchAccountGroups fetch (addMessage InstanceTypeChangeIntroText Bot st2)
             | CloudWatchConfiguration \<Rightarrow>
                 fetchAccountGroups fetch (addMessage CloudWatchIntroText Bot st2)
             | AlarmConfiguration \<Rightarrow>
                 fetchAccountGroups fetch (addMessage AlarmIntroText Bot st2)
             | GenericChat \<Rightarrow> regularChat fetch v st2)
            \<lparr>loading := False\<rparr>)) \<and>
   detectIntent s = specIntent s \<and>
   detectIntent (trim s) = specIntent s \<and>
   detectIntent ''configure cloudwatch alarm'' = CloudWatchConfiguration"
  (is "(_ \<longrightarrow> ?Q) \<and> _")
proof -
  have q: "trim (input st) \<noteq> [] \<Longrightarrow> ?Q"
    by (rule handleSend_specIntent)
  have d1: "detectIntent s = specIntent s"
    by (rule detectIntent_specIntent)
  have d2: "detectIntent (trim s) = specIntent s"
    using detectIntent_trim [of s] d1 by simp
  have e: "detectIntent ''configure cloudwatch alarm'' = CloudWatchConfiguration"
    by code_simp
  from q d1 d2 e show ?thesis by blast
qed

theorem handleSend_routes_first_match_witness:
  "trim (input cloudwatchAlarmApp) = ''configure cloudwatch alarm'' \<and>
   specIntent (input cloudwatchAlarmApp) = CloudWatchConfiguration \<and>
   map msg_text (messages (handleSend unreachable cloudwatchAlarmApp)) =
     [WelcomeText, Plain ''configure cloudwatch alarm'', CloudWatchIntroText,
      AccountsApologyText] \<and>
   map req_path (requests (handleSend unreachable cloudwatchAlarmApp)) =
     [''/api/discover-accounts''] \<and>
   specIntent ''Please RESIZE my server'' = InstanceTypeChange \<and>
   specIntent ''set up an Alarm'' = AlarmConfiguration \<and>
   specIntent ''hello there'' = GenericChat"
proof -
  let ?st2 = "(addMessage (Plain ''configure cloudwatch alarm'') User cloudwatchAlarmApp)
                \<lparr>input := [], loading := True\<rparr>"
  have t: "trim (input cloudwatchAlarmApp) = ''configure cloudwatch alarm''" by code_simp
  have d: "detectIntent (trim (input cloudwatchAlarmApp)) = CloudWatchConfiguration"
    by code_simp
  have m: "map msg_text (messages
             ((fetchAccountGroups unreachable (addMessage CloudWatchIntroText Bot ?st2))
                \<lparr>loading := False\<rparr>)) =
           [WelcomeText, Plain ''configure cloudwatch alarm'', CloudWatchIntroText,
            AccountsApologyText]"
    by code_simp
  have r: "map req_path (requests
             ((fetchAccountGroups unreachable (addMessage CloudWatchIntroText Bot ?st2))
                \<lparr>loading := False\<rparr>)) = [''/api/discover-accounts'']"
    by code_simp
  have e1: "detectIntent ''Please RESIZE my server'' = InstanceTypeChange" by code_simp
  have e2: "detectIntent ''set up an Alarm'' = AlarmConfiguration" by code_simp
  have e3: "detectIntent ''hello there'' = GenericChat" by code_simp
  from handleSend_routes_first_match [of cloudwatchAlarmApp unreachable "input cloudwatchAlarmApp"]
    handleSend_routes_first_match [of cloudwatchAlarmApp unreachable "''Please RESIZE my server''"]
    handleSend_routes_first_match [of cloudwatchAlarmApp unreachable "''set up an Alarm''"]
    handleSend_routes_first_match [of cloudwatchAlarmApp unreachable "''hello there''"]
    t d m r e1 e2 e3
  show ?thesis by (simp add: Let_def)
qed

subsection \<open>Blank input\<close>

lemma trim_blank: "\<forall>c \<in> set s. isWhiteSpace c \<Longrightarrow> trim s = []"
proof -
  assume "\<forall>c \<in> set s. isWhiteSpace c"
  then have blank: "dropWhile isWhiteSpace s = []"
    by (induction s) simp_all
  show ?thesis unfolding trim_def blank by simp
qed

text \<open>
  C9. When the input is empty or consists of white space only, \<^verbatim>\<open>handleSend\<close> returns
  the state it was given: no message is appended, no request is issued, the conversation
  state is the same, and the routing chain is not consulted.
\<close>

theorem handleSend_blank_noop:
  "\<forall>c \<in> set (input st). isWhiteSpace c \<Longrightarrow> handleSend fetch st = st"
  by (simp add: handleSend_def trim_blank)

theorem handleSend_blank_noop_witness:
  "list_all isWhiteSpace (input ((initialApp ''s'')\<lparr>input := [CHR '' '', CHR 0x09, CHR 0xA0]\<rparr>)) \<and>
   handleSend unreachable ((initialApp ''s'')\<lparr>input := [CHR '' '', CHR 0x09, CHR 0xA0]\<rparr>)
     = (initialApp ''s'')\<lparr>input := [CHR '' '', CHR 0x09, CHR 0xA0]\<rparr>"
proof -
  have h: "\<forall>c \<in> set (input ((initialApp ''s'')\<lparr>input := [CHR '' '', CHR 0x09, CHR 0xA0]\<rparr>)).
             isWhiteSpace c"
    by (simp add: isWhiteSpace_def)
  from handleSend_blank_noop [OF h, of unreachable] h show ?thesis
    by (simp add: list_all_iff)
qed

subsection \<open>Failed discovery\<close>

lemma fetchAccountGroups_failure:
  assumes "fst (discoverAccounts fetch) = Inl e"
  shows "messages (fetchAccountGroups fetch st) =
           messages st @ [textMessage Bot AccountsApologyText]"
    and "conversationState (fetchAccountGroups fetch st) = conversationState st"
  using assms
  by (cases "discoverAccounts fetch";
      simp add: fetchAccountGroups_def addMessage_def appendMessage_def issued_def)+

lemma handleAccountSelect_failure:
  assumes "fst (discoverInstances fetch (Some acct)) = Inl e"
  shows "messages (handleAccountSelect fetch acct st) =
           messages st @ [textMessage User (SelectedAccountText acct),
                          textMessage Bot (ScanningText acct),
                          textMessage Bot InstancesApologyText]"
    and "conversationState (handleAccountSelect fetch acct st) = conversationState st"
  using assms
  by (cases "discoverInstances fetch (Some acct)";
      simp add: handleAccountSelect_def addMessage_def appendMessage_def issued_def)+

text \<open>
  C7. When \<^verbatim>\<open>discoverAccounts\<close> throws, \<^verbatim>\<open>fetchAccountGroups\<close> appends the apology and
  nothing else to the transcript and leaves the conversation state as it was; when
  \<^verbatim>\<open>discoverInstances\<close> throws, \<^verbatim>\<open>handleAccountSelect\<close> ends the transcript with its
  apology, after the two messages it posts before the call, and leaves the conversation
  state as it was.
\<close>

theorem discovery_failure_keeps_state:
  "(fst (discoverAccounts fetch) = Inl e \<longrightarrow>
      messages (fetchAccountGroups fetch st) =
        messages st @ [textMessage Bot AccountsApologyText] \<and>
      conversationState (fetchAccountGroups fetch st) = conversationState st) \<and>
   (fst (discoverInstances fetch (Some acct)) = Inl e' \<longrightarrow>
      messages (handleAccountSelect fetch acct st) =
        messages st @ [textMessage User (SelectedAccountText acct),
                       textMessage Bot (ScanningText acct),
                       textMessage Bot InstancesApologyText] \<and>
      conversationState (handleAccountSelect fetch acct st) = conversationState st)"
  using fetchAccountGroups_failure handleAccountSelect_failure by blast

theorem discovery_failure_keeps_state_witness:
  "fst (discoverAccounts unreachable) =
     Inl (Error (FailedTo ''discover accounts'' CannotConnect)) \<and>
   fst (discoverInstances unreachable (Some ''1'')) =
     Inl (Error (FailedTo ''discover instances for account 1'' CannotConnect)) \<and>
   conversationState
     (fetchAccountGroups unreachable
        ((initialApp ''s'')\<lparr>conversationState := AccountSelection\<rparr>)) = AccountSelection \<and>
   conversationState
     (handleAccountSelect unreachable ''1''
        ((initialApp ''s'')\<lparr>conversationState := AccountSelection\<rparr>)) = AccountSelection"
proof -
  have h1: "fst (discoverAccounts unreachable) =
              Inl (Error (FailedTo ''discover accounts'' CannotConnect))"
    by code_simp
  have h2: "fst (discoverInstances unreachable (Some ''1'')) =
              Inl (Error (FailedTo ''discover instances for account 1'' CannotConnect))"
    by code_simp
  from discovery_failure_keeps_state
         [of unreachable _ "(initialApp ''s'')\<lparr>conversationState := AccountSelection\<rparr>" "''1''"]
       h1 h2
  show ?thesis by simp
qed

subsection \<open>Validation in convertVolumes\<close>

text \<open>
  C8, as amended. A payload that lacks \<^verbatim>\<open>instanceId\<close>, \<^verbatim>\<open>accountId\<close> or \<^verbatim>\<open>region\<close>
  (absent or empty) makes \<^verbatim>\<open>convertVolumes\<close> throw its validation error without
  issuing a request.
\<close>

theorem convertVolumes_validation:
  "\<not> truthy (instanceId data) \<or> \<not> truthy (accountId data) \<or> \<not> truthy (region data) \<Longrightarrow>
   convertVolumes fetch data =
     (Inl (Error (FailedTo ''convert volumes'' MissingRequiredFields)), [])"
  by (auto simp add: convertVolumes_def)

theorem convertVolumes_validation_witness:
  "\<not> truthy (accountId (examplePayload\<lparr>accountId := None, volumeIds := Some [''vol-1'']\<rparr>)) \<and>
   convertVolumes (answering 200 emptyBody)
       (examplePayload\<lparr>accountId := None, volumeIds := Some [''vol-1'']\<rparr>)
     = (Inl (Error (FailedTo ''convert volumes'' MissingRequiredFields)), [])"
proof -
  have h: "\<not> truthy (accountId (examplePayload\<lparr>accountId := None, volumeIds := Some [''vol-1'']\<rparr>))"
    by (simp add: truthy_def)
  then show ?thesis
    using convertVolumes_validation
            [of "examplePayload\<lparr>accountId := None, volumeIds := Some [''vol-1'']\<rparr>"
                "answering 200 emptyBody"]
    by blast
qed

text \<open>
  A payload without \<^verbatim>\<open>volumeIds\<close> whose other three fields are present is not rejected:
  the request is issued and the server's answer returned.
\<close>

theorem convertVolumes_volumeIds_counterexample:
  "volumeIds examplePayload = None \<and>
   convertVolumes (answering 200 emptyBody) examplePayload =
     (Inr emptyBody,
      [\<lparr>req_method = POST, req_path = ''/api/convert-volumes'',
        req_body = DataBody examplePayload\<rparr>])"
  by (simp add: examplePayload_def convertVolumes_def truthy_def apiCall_def answering_def
        ok_def)

subsection \<open>Alarm configuration\<close>

lemma nth_markAlarmsConfigured:
  "k < length xs \<Longrightarrow>
   markAlarmsConfigured x xs ! k =
     (if InstanceId (xs ! k) = InstanceId x then (xs ! k)\<lparr>AlarmsConfigured := True\<rparr>
      else xs ! k)"
  by (simp add: markAlarmsConfigured_def)

lemma handleConfirmAlarmConfig_success:
  assumes "alarmModal st = Some x"
    and "fst (configureAlarms fetch (alarmRequestData x acct config)) = Inr r"
    and "success r"
  shows "instances (snd (handleConfirmAlarmConfig fetch acct config st)) =
           markAlarmsConfigured x (instances st)"
  using assms
  by (cases "configureAlarms fetch (alarmRequestData x acct config)")
     (simp add: handleConfirmAlarmConfig_def addMessage_def appendMessage_def issued_def
        setTimeout_def Let_def)

text \<open>
  C10. When the alarm configuration call for instance \<open>x\<close> succeeds, the instance list
  keeps its length and order; each entry whose \<^verbatim>\<open>InstanceId\<close> is that of \<open>x\<close> is the old
  entry with \<^verbatim>\<open>AlarmsConfigured\<close> set to true and every other field as before, and every
  other entry is the old entry.
\<close>

theorem alarm_success_marks_only_target:
  assumes "alarmModal st = Some x"
    and "fst (configureAlarms fetch (alarmRequestData x acct config)) = Inr r"
    and "success r"
  shows "length (instances (snd (handleConfirmAlarmConfig fetch acct config st))) =
           length (instances st) \<and>
         (\<forall>k < length (instances st).
            instances (snd (handleConfirmAlarmConfig fetch acct config st)) ! k =
              (if InstanceId (instances st ! k) = InstanceId x
               then (instances st ! k)\<lparr>AlarmsConfigured := True\<rparr>
               else instances st ! k))"
  using handleConfirmAlarmConfig_success [OF assms]
  by (simp add: nth_markAlarmsConfigured) (simp add: markAlarmsConfigured_def)

theorem alarm_success_marks_only_target_witness:
  "alarmModal alarmDialogApp = Some (exampleInstance ''i-1'' ''running'' True False) \<and>
   success (projr (fst (configureAlarms (answering 200 (emptyBody\<lparr>res_success := True\<rparr>))
       (alarmRequestData (exampleInstance ''i-1'' ''running'' True False)
          ''111122223333'' [])))) \<and>
   instances (snd (handleConfirmAlarmConfig (answering 200 (emptyBody\<lparr>res_success := True\<rparr>))
       ''111122223333'' [] alarmDialogApp)) ! 0 = exampleInstance ''i-1'' ''running'' True True \<and>
   instances (snd (handleConfirmAlarmConfig (answering 200 (emptyBody\<lparr>res_success := True\<rparr>))
       ''111122223333'' [] alarmDialogApp)) ! 1 = exampleInstance ''i-2'' ''running'' True False"
proof -
  let ?x = "exampleInstance ''i-1'' ''running'' True False"
  let ?f = "answering 200 (emptyBody\<lparr>res_success := True\<rparr>)"
  have h1: "alarmModal alarmDialogApp = Some ?x"
    by (simp add: alarmDialogApp_def)
  have h2: "fst (configureAlarms ?f (alarmRequestData ?x ''111122223333'' [])) =
      Inr \<lparr>success = True, partialSuccess = False, message = None,
           alarmDetails = Some \<lparr>successfulAlarms = 4, totalAlarms = 4,
             createdAlarms = [''i-1-CPU-Utilization'', ''i-1-Memory-Utilization'',
                              ''i-1-Disk-Utilization'', ''i-1-StatusCheck-System'']\<rparr>\<rparr>"
    by code_simp
  have h3: "instances alarmDialogApp = [?x, exampleInstance ''i-2'' ''running'' True False]"
    by (simp add: alarmDialogApp_def)
  from alarm_success_marks_only_target [OF h1 h2] h1 h2 h3
  show ?thesis by (simp add: exampleInstance_def)
qed





text \<open>
  The success test comes first: a 207 response whose body is flagged \<^verbatim>\<open>success\<close> is a
  full success to \<^verbatim>\<open>configureAlarms\<close>, whatever its \<^verbatim>\<open>partialSuccess\<close> flag says.
\<close>

lemma configureAlarms_success_first:
  assumes "InstanceId x \<noteq> []" "acct \<noteq> []" "Region x \<noteq> []"
    and "fetch (alarmRequest x acct config) = Response 207 body"
    and "res_success body"
  shows "\<exists>r. fst (configureAlarms fetch (alarmRequestData x acct config)) = Inr r \<and> success r"
proof -
  have fields: "truthy (instanceId (alarmRequestData x acct config))"
    "truthy (accountId (alarmRequestData x acct config))"
    "truthy (region (alarmRequestData x acct config))"
    using assms(1-3) by (simp_all add: truthy_def alarmRequestData_def)
  have req: "fetch \<lparr>req_method = POST, req_path = ''/api/configure-alarms'',
                     req_body = DataBody (alarmRequestData x acct config)\<rparr> = Response 207 body"
    using assms(4) by (simp add: alarmRequest_def)
  show ?thesis
    using fields req assms(5) by (simp add: configureAlarms_def ok_def)
qed

subsection \<open>Refreshing twice\<close>

lemma Table_refresh_state:
  "acct \<noteq> [] \<Longrightarrow>
   Table_handleRefreshInstances fetch acct st =
     (let (response, reqs) = discoverInstances fetch (Some acct)
      in st\<lparr>messages := messages st @ [textMessage User RefreshRequestText],
             requests := requests st @ reqs,
             refreshing := False,
             instances := (case response of Inr data \<Rightarrow> (case res_instances data of Some is \<Rightarrow> is | None \<Rightarrow> instances st) | Inl e \<Rightarrow> instances st),
             timers := timers st @
               [(500, AddBotMessage
                  (case response of
                     Inr data \<Rightarrow> (case res_instances data of
                         Some is \<Rightarrow> (case res_summary data of Some sm \<Rightarrow> RefreshedText sm
                                      | None \<Rightarrow> RefreshFailedText (CannotRead ''totalInstances''))
                       | None \<Rightarrow> RefreshFailedText FailedToFetchInstanceData)
                   | Inl e \<Rightarrow> RefreshFailedText (errMessage e)))]\<rparr>)"
  by (cases "discoverInstances fetch (Some acct)")
     (auto simp add: Table_handleRefreshInstances_def addMessage_def appendMessage_def
        issued_def setTimeout_def Let_def split: sum.splits option.splits)

lemma Table_refresh_instances_again:
  "instances (Table_handleRefreshInstances fetch acct (Table_handleRefreshInstances fetch acct st)) =
   instances (Table_handleRefreshInstances fetch acct st)"
proof (cases "acct = []")
  case True
  then show ?thesis by (simp add: Table_handleRefreshInstances_def)
next
  case False
  then show ?thesis
    by (cases "discoverInstances fetch (Some acct)")
       (auto simp add: Table_refresh_state split: sum.splits option.splits)
qed

lemma Table_refresh_messages:
  "acct \<noteq> [] \<Longrightarrow>
   messages (Table_handleRefreshInstances fetch acct st) =
     messages st @ [textMessage User RefreshRequestText]"
  by (cases "discoverInstances fetch (Some acct)") (simp add: Table_refresh_state)

lemma Table_refresh_timers:
  "acct \<noteq> [] \<Longrightarrow>
   length (timers (Table_handleRefreshInstances fetch acct st)) = Suc (length (timers st))"
  by (cases "discoverInstances fetch (Some acct)") (simp add: Table_refresh_state)

lemma refreshTableMessage_idem:
  "refreshTableMessage a is (refreshTableMessage a is m) = refreshTableMessage a is m"
  by (cases "msg_data m") (simp_all add: refreshTableMessage_def)

lemma ChatBot_refresh_selectedAccount:
  "selectedAccount (snd (ChatBot_handleRefreshInstances fetch st)) = selectedAccount st"
  by (cases "discoverInstances fetch (selectedAccount st)")
     (auto simp add: ChatBot_handleRefreshInstances_def issued_def Let_def
        split: sum.splits option.splits)

lemma ChatBot_refresh_again:
  "instances (snd (ChatBot_handleRefreshInstances fetch (snd (ChatBot_handleRefreshInstances fetch st)))) =
     instances (snd (ChatBot_handleRefreshInstances fetch st))"
  "messages (snd (ChatBot_handleRefreshInstances fetch (snd (ChatBot_handleRefreshInstances fetch st)))) =
     messages (snd (ChatBot_handleRefreshInstances fetch st))"
  by (cases "discoverInstances fetch (selectedAccount st)";
      auto simp add: ChatBot_handleRefreshInstances_def issued_def Let_def refreshTableMessage_idem
        split: sum.splits option.splits)+

text \<open>
  C4, as amended. With the backend unchanged, a second refresh leaves the instance list of
  the first, for the table's handler and for the conversation's. The conversation's
  handler leaves the transcript of the first refresh as it is. The table's handler appends
  its request message and schedules one reply on every invocation.
\<close>

theorem refresh_twice:
  "instances (Table_handleRefreshInstances fetch acct (Table_handleRefreshInstances fetch acct st)) =
     instances (Table_handleRefreshInstances fetch acct st) \<and>
   instances (snd (ChatBot_handleRefreshInstances fetch (snd (ChatBot_handleRefreshInstances fetch st)))) =
     instances (snd (ChatBot_handleRefreshInstances fetch st)) \<and>
   messages (snd (ChatBot_handleRefreshInstances fetch (snd (ChatBot_handleRefreshInstances fetch st)))) =
     messages (snd (ChatBot_handleRefreshInstances fetch st)) \<and>
   (acct \<noteq> [] \<longrightarrow>
      messages (Table_handleRefreshInstances fetch acct st) =
        messages st @ [textMessage User RefreshRequestText] \<and>
      length (timers (Table_handleRefreshInstances fetch acct st)) = Suc (length (timers st)))"
  using Table_refresh_instances_again ChatBot_refresh_again Table_refresh_messages
    Table_refresh_timers
  by blast

theorem refresh_twice_witness:
  "''111122223333'' \<noteq> [] \<and>
   instances (Table_handleRefreshInstances changedBackend ''111122223333''
                (Table_handleRefreshInstances changedBackend ''111122223333'' managingApp)) =
     [exampleInstance ''i-1'' ''running'' True False,
      exampleInstance ''i-2'' ''stopped'' False False] \<and>
   messages (Table_handleRefreshInstances changedBackend ''111122223333'' managingApp) =
     messages managingApp @ [textMessage User RefreshRequestText] \<and>
   length (timers (Table_handleRefreshInstances changedBackend ''111122223333'' managingApp)) =
     Suc (length (timers managingApp))"
proof -
  have h: "instances (Table_handleRefreshInstances changedBackend ''111122223333'' managingApp) =
     [exampleInstance ''i-1'' ''running'' True False,
      exampleInstance ''i-2'' ''stopped'' False False]"
    by code_simp
  from refresh_twice [of changedBackend "''111122223333''" managingApp] h
  show ?thesis by simp
qed

text \<open>
  After two refreshes from the table the transcript holds two refresh messages, after one
  it holds one.
\<close>

theorem refresh_twice_counterexample:
  "length (filter refreshRelated
     (messages (Table_handleRefreshInstances changedBackend ''111122223333''
                 (Table_handleRefreshInstances changedBackend ''111122223333'' managingApp)))) = 2 \<and>
   length (filter refreshRelated
     (messages (Table_handleRefreshInstances changedBackend ''111122223333'' managingApp))) = 1"
  by code_simp

subsection \<open>The table payload of the transcript\<close>

text \<open>
  C6. The claim is that after a successful refresh the displayed instance list and the
  payload of the instances-table message are equal. After the table's refresh handler has
  fetched a list with a second instance, the displayed list has both instances and the
  payload of the message still has one.
\<close>

theorem table_refresh_leaves_payload_stale:
  "instances (Table_handleRefreshInstances changedBackend ''111122223333'' managingApp) =
     [exampleInstance ''i-1'' ''running'' True False,
      exampleInstance ''i-2'' ''stopped'' False False] \<and>
   tablePayloads (Table_handleRefreshInstances changedBackend ''111122223333'' managingApp) =
     [TableData [exampleInstance ''i-1'' ''running'' True False] ''111122223333'']"
  by code_simp

text \<open>
  The conversation's own refresh handler does update the payload of every instances-table
  message of the selected account.
\<close>

lemma ChatBot_refresh_updates_payload:
  assumes "fst (ChatBot_handleRefreshInstances fetch st) = Inr (Some is)"
    and "m \<in> set (messages (snd (ChatBot_handleRefreshInstances fetch st)))"
    and "msg_type m = InstancesTableMsg"
    and "msg_data m = TableData payload a"
    and "selectedAccount st = Some a"
  shows "payload = instances (snd (ChatBot_handleRefreshInstances fetch st))"
  using assms
  by (cases "discoverInstances fetch (selectedAccount st)")
     (auto simp add: ChatBot_handleRefreshInstances_def issued_def Let_def refreshTableMessage_def
        split: sum.splits option.splits if_splits msg_data.splits)

lemma ChatBot_refresh_example:
  "instances (snd (ChatBot_handleRefreshInstances changedBackend managingApp)) =
     [exampleInstance ''i-1'' ''running'' True False,
      exampleInstance ''i-2'' ''stopped'' False False] \<and>
   tablePayloads (snd (ChatBot_handleRefreshInstances changedBackend managingApp)) =
     [TableData [exampleInstance ''i-1'' ''running'' True False,
                 exampleInstance ''i-2'' ''stopped'' False False] ''111122223333'']"
  by code_simp

subsection \<open>Default performance settings\<close>

text \<open>
  C3. The claim is that for target type gp3 and an average size of 100 GB the dialog
  prefills 3000 IOPS and a throughput of 750. \<^verbatim>\<open>volumeTypeOptions\<close> has no entry for gp3,
  so \<^verbatim>\<open>calculateOptimalSettings\<close> returns null and both fields stay empty.
\<close>

theorem gp3_defaults_not_prefilled:
  "targetVolumeType selectionModal = ''gp3'' \<and>
   calculateOptimalSettings 100 ''gp3'' = None \<and>
   proceedToConfiguration selectionModal = selectionModal\<lparr>step := Configuration\<rparr> \<and>
   customIops (proceedToConfiguration selectionModal) = None \<and>
   customThroughput (proceedToConfiguration selectionModal) = None"
  by code_simp

text \<open>
  The formula of the gp3 branch itself gives the values of the claim; no entry of
  \<^verbatim>\<open>volumeTypeOptions\<close> lets a call reach it.
\<close>

lemma gp3Settings_formula:
  "iops (gp3Settings n) = max 3000 (min (n * 3) 16000) \<and>
   throughput (gp3Settings n) = Some (max 125 (min (iops (gp3Settings n) div 4) 1000)) \<and>
   gp3Settings 100 = \<lparr>iops = 3000, throughput = Some 750\<rparr>"
  by (simp add: gp3Settings_def Let_def)

lemma calculateOptimalSettings_never:
  "calculateOptimalSettings n targetType = None"
  by (simp add: calculateOptimalSettings_def volumeTypeOptions_def)

subsection \<open>Sort order of the table\<close>

text \<open>
  C2. The claim is that instances of equal tier that are not running keep their order. For
  a stopped and a terminated instance of one tier the comparison function answers 1 in
  both directions, so each is to come after the other: the engine that scans left swaps
  the two, the engine that scans right keeps them.
\<close>

theorem nonrunning_comparison_conflict:
  "compareInstances (exampleInstance ''i-1'' ''stopped'' False False)
                    (exampleInstance ''i-2'' ''terminated'' False False) = 1 \<and>
   compareInstances (exampleInstance ''i-2'' ''terminated'' False False)
                    (exampleInstance ''i-1'' ''stopped'' False False) = 1 \<and>
   sortedInstances sortScanningLeft
     [exampleInstance ''i-1'' ''stopped'' False False,
      exampleInstance ''i-2'' ''terminated'' False False] =
     [exampleInstance ''i-2'' ''terminated'' False False,
      exampleInstance ''i-1'' ''stopped'' False False] \<and>
   sortedInstances sortScanningRight
     [exampleInstance ''i-1'' ''stopped'' False False,
      exampleInstance ''i-2'' ''terminated'' False False] =
     [exampleInstance ''i-1'' ''stopped'' False False,
      exampleInstance ''i-2'' ''terminated'' False False]"
  by code_simp

text \<open>Tiers 2, 0, 1 come out as 0, 1, 2 under both engines.\<close>

lemma tiers_example:
  "map (priority \<circ> getInstanceStatus)
     (sortedInstances sortScanningLeft
        [exampleInstance ''a'' ''running'' True True,
         exampleInstance ''b'' ''stopped'' False False,
         exampleInstance ''c'' ''running'' True False]) = [0, 1, 2] \<and>
   map (priority \<circ> getInstanceStatus)
     (sortedInstances sortScanningRight
        [exampleInstance ''a'' ''running'' True True,
         exampleInstance ''b'' ''stopped'' False False,
         exampleInstance ''c'' ''running'' True False]) = [0, 1, 2]"
  by code_simp

lemma compare_neg_iff: "compareInstances a b < 0 \<longleftrightarrow> rank a < rank b"
  by (cases "getInstanceStatus a"; cases "getInstanceStatus b")
     (auto simp add: compareInstances_def rank_def Let_def)

lemma compare_pos_iff:
  "compareInstances a b > 0 \<longleftrightarrow> rank b < rank a \<or> (rank a = rank b \<and> State a \<noteq> State b)"
  by (cases "getInstanceStatus a"; cases "getInstanceStatus b")
     (auto simp add: compareInstances_def rank_def Let_def)

lemma mset_insertScanningRight: "mset (insertScanningRight cmp x es) = add_mset x (mset es)"
  by (induction es) simp_all

lemma set_insertScanningRight: "set (insertScanningRight cmp x es) = insert x (set es)"
  by (induction es) auto

lemma sorted_insertScanningRight:
  assumes "\<And>a b. cmp a b < 0 \<longleftrightarrow> f a < (f b :: int)"
  shows "sorted (map f es) \<Longrightarrow> sorted (map f (insertScanningRight cmp x es))"
  using assms by (induction es) (auto simp add: set_insertScanningRight)

lemma filter_insertScanningRight:
  assumes "\<And>a b. cmp a b < 0 \<longleftrightarrow> f a < (f b :: int)"
  shows "sorted (map f es) \<Longrightarrow>
         filter (\<lambda>e. f e = r) (insertScanningRight cmp x es) =
           filter (\<lambda>e. f e = r) es @ filter (\<lambda>e. f e = r) [x]"
proof (induction es)
  case Nil
  then show ?case by simp
next
  case (Cons e es)
  show ?case
  proof (cases "cmp x e < 0")
    case True
    then have "f x < f e" using assms by simp
    moreover have "\<forall>y \<in> set es. f e \<le> f y" using Cons.prems by simp
    ultimately have "f x = r \<Longrightarrow> filter (\<lambda>e. f e = r) (e # es) = []"
      by (auto simp add: filter_empty_conv)
    with True show ?thesis by auto
  next
    case False
    with Cons show ?thesis by simp
  qed
qed

lemma foldl_insertScanningRight:
  assumes "\<And>a b. cmp a b < 0 \<longleftrightarrow> f a < (f b :: int)"
  shows "sorted (map f acc) \<Longrightarrow>
         sorted (map f (foldl (\<lambda>pre x. insertScanningRight cmp x pre) acc xs)) \<and>
         mset (foldl (\<lambda>pre x. insertScanningRight cmp x pre) acc xs) = mset acc + mset xs \<and>
         filter (\<lambda>e. f e = r) (foldl (\<lambda>pre x. insertScanningRight cmp x pre) acc xs) =
           filter (\<lambda>e. f e = r) acc @ filter (\<lambda>e. f e = r) xs"
proof (induction xs arbitrary: acc)
  case Nil
  then show ?case by simp
next
  case (Cons x xs)
  have s: "sorted (map f (insertScanningRight cmp x acc))"
    using assms Cons.prems by (rule sorted_insertScanningRight)
  have fl: "filter (\<lambda>e. f e = r) (insertScanningRight cmp x acc) =
           filter (\<lambda>e. f e = r) acc @ filter (\<lambda>e. f e = r) [x]"
    using assms Cons.prems by (rule filter_insertScanningRight)
  show ?case
    using Cons.IH [OF s] fl by (simp add: mset_insertScanningRight)
qed

lemma mset_insertScanningLeft: "mset (insertScanningLeft cmp x es) = add_mset x (mset es)"
  by (induction es) simp_all

lemma set_insertScanningLeft: "set (insertScanningLeft cmp x es) = insert x (set es)"
  by (induction es) auto

lemma sorted_insertScanningLeft:
  assumes "\<And>a b. cmp a b > 0 \<Longrightarrow> f b \<le> (f a :: int)"
    and "\<And>a b. \<not> cmp a b > 0 \<Longrightarrow> f a \<le> f b"
  shows "sorted (rev (map f es)) \<Longrightarrow> sorted (rev (map f (insertScanningLeft cmp x es)))"
proof (induction es)
  case Nil
  then show ?case by simp
next
  case (Cons e es)
  show ?case
  proof (cases "cmp e x > 0")
    case True
    then have "f x \<le> f e" using assms(1) by simp
    with True Cons show ?thesis
      by (auto simp add: sorted_append set_insertScanningLeft)
  next
    case False
    then have "f e \<le> f x" using assms(2) by simp
    with False Cons.prems show ?thesis
      by (auto simp add: sorted_append)
  qed
qed

lemma foldl_insertScanningLeft:
  assumes "\<And>a b. cmp a b > 0 \<Longrightarrow> f b \<le> (f a :: int)"
    and "\<And>a b. \<not> cmp a b > 0 \<Longrightarrow> f a \<le> f b"
  shows "sorted (rev (map f acc)) \<Longrightarrow>
         sorted (rev (map f (foldl (\<lambda>pre x. insertScanningLeft cmp x pre) acc xs))) \<and>
         mset (foldl (\<lambda>pre x. insertScanningLeft cmp x pre) acc xs) = mset acc + mset xs"
proof (induction xs arbitrary: acc)
  case Nil
  then show ?case by simp
next
  case (Cons x xs)
  have s: "sorted (rev (map f (insertScanningLeft cmp x acc)))"
    using assms Cons.prems by (rule sorted_insertScanningLeft)
  show ?case
    using Cons.IH [OF s] by (simp add: mset_insertScanningLeft)
qed

text \<open>
  Under both engines the sorted list is a rearrangement of the instances in ascending
  rank: tiers ascending, running before not running within a tier.
\<close>

lemma sortedInstances_ordered:
  "sorted (map rank (sortedInstances sortScanningLeft xs))"
  "mset (sortedInstances sortScanningLeft xs) = mset xs"
  "sorted (map rank (sortedInstances sortScanningRight xs))"
  "mset (sortedInstances sortScanningRight xs) = mset xs"
proof -
  have l: "sorted (rev (map rank (foldl (\<lambda>pre x. insertScanningLeft compareInstances x pre) [] xs))) \<and>
         mset (foldl (\<lambda>pre x. insertScanningLeft compareInstances x pre) [] xs) = mset [] + mset xs"
    by (rule foldl_insertScanningLeft) (auto simp add: compare_pos_iff)
  have r: "sorted (map rank (foldl (\<lambda>pre x. insertScanningRight compareInstances x pre) [] xs)) \<and>
         mset (foldl (\<lambda>pre x. insertScanningRight compareInstances x pre) [] xs) = mset [] + mset xs \<and>
         filter (\<lambda>e. rank e = 0) (foldl (\<lambda>pre x. insertScanningRight compareInstances x pre) [] xs) =
           filter (\<lambda>e. rank e = 0) [] @ filter (\<lambda>e. rank e = 0) xs"
    by (rule foldl_insertScanningRight) (auto simp add: compare_neg_iff)
  show "sorted (map rank (sortedInstances sortScanningLeft xs))"
    using l by (simp add: sortedInstances_def sortScanningLeft_def rev_map)
  show "mset (sortedInstances sortScanningLeft xs) = mset xs"
    using l by (simp add: sortedInstances_def sortScanningLeft_def)
  show "sorted (map rank (sortedInstances sortScanningRight xs))"
    using r by (simp add: sortedInstances_def sortScanningRight_def)
  show "mset (sortedInstances sortScanningRight xs) = mset xs"
    using r by (simp add: sortedInstances_def sortScanningRight_def)
qed

text \<open>Under the engine that scans right, instances of equal rank keep their order.\<close>

lemma sortScanningRight_stable:
  "filter (\<lambda>e. rank e = r) (sortedInstances sortScanningRight xs) = filter (\<lambda>e. rank e = r) xs"
proof -
  have "sorted (map rank (foldl (\<lambda>pre x. insertScanningRight compareInstances x pre) [] xs)) \<and>
         mset (foldl (\<lambda>pre x. insertScanningRight compareInstances x pre) [] xs) = mset [] + mset xs \<and>
         filter (\<lambda>e. rank e = r) (foldl (\<lambda>pre x. insertScanningRight compareInstances x pre) [] xs) =
           filter (\<lambda>e. rank e = r) [] @ filter (\<lambda>e. rank e = r) xs"
    by (rule foldl_insertScanningRight) (auto simp add: compare_neg_iff)
  then show ?thesis by (simp add: sortedInstances_def sortScanningRight_def)
qed

end
